theory Spec2Isabelle
  imports Main
begin

section \<open>Data model\<close>

text \<open>
  The records follow the interfaces the screens import from \<open>@/types/database\<close> and the
  session object of the identity provider. Every table has an \<open>id\<close> column, so the
  fields carry a short prefix for their table. Timestamps that the client compares or
  orders by (\<open>created_at\<close>, \<open>appointment_date\<close>, \<open>recorded_at\<close>) are numbers
  (milliseconds); the ones it only carries around stay strings.
\<close>

datatype Role = admin | doctor | staff | parent

record User =
  u_id :: string
  u_email :: string
  u_role :: Role
  u_first_name :: string
  u_last_name :: string
  u_phone :: "string option"
  u_created_at :: string
  u_updated_at :: string

text \<open>
  A session is opaque to the client except for \<open>session.user.id\<close>. The provider's
  \<open>Session\<close> type always carries its user, so \<open>session?.user\<close> is falsy exactly
  when the session is \<open>null\<close>.
\<close>

record Session =
  access_token :: string
  session_user_id :: string

text \<open>The three \<open>useState\<close> cells of \<open>AuthProvider\<close>.\<close>

record AuthState =
  session :: "Session option"
  user :: "User option"
  loading :: bool

section \<open>The identity provider and the row store, as the client sees them\<close>

text \<open>
  An awaited call either rejects (the \<open>catch\<close> branch runs) or resolves to a value.
\<close>

datatype 'a settled = Rejected | Resolved 'a

text \<open>
  What the profile query \<open>from(table).select('*').eq('id', userId).single()\<close> can come
  back with: a transport failure, or the rows of the table, of which the store keeps those
  with the requested id; \<open>single\<close> turns anything but exactly one row into an error.
\<close>

datatype profile_reply = NetworkError string | Rows "User list"

fun single :: "'r list \<Rightarrow> string + 'r" where
  "single [r] = Inr r"
| "single [] = Inl ''JSON object requested, multiple (or no) rows returned''"
| "single (r # r' # rs) = Inl ''JSON object requested, multiple (or no) rows returned''"

fun profile_query :: "string \<Rightarrow> profile_reply \<Rightarrow> string + User" where
  "profile_query userId (NetworkError e) = Inl e"
| "profile_query userId (Rows rows) = single (filter (\<lambda>r. u_id r = userId) rows)"

text \<open>
  \<open>Partial<User>\<close>, the third argument of \<open>signUp\<close>. A key of such an object is
  absent, present with the value \<open>undefined\<close>, or present with a value. Reading the key
  gives \<open>undefined\<close> in the first two cases; a spread copies the key in the last two.
\<close>

datatype 'a property = Absent | Undefined | Value 'a

fun read :: "'a property \<Rightarrow> 'a option" where
  "read Absent = None"
| "read Undefined = None"
| "read (Value x) = Some x"

record UserData =
  d_id :: "string property"
  d_email :: "string property"
  d_role :: "Role property"
  d_first_name :: "string property"
  d_last_name :: "string property"
  d_phone :: "string property"
  d_created_at :: "string property"
  d_updated_at :: "string property"

text \<open>The \<open>options.data\<close> object that \<open>signUp\<close> hands to the provider.\<close>

record Metadata =
  m_first_name :: "string option"
  m_last_name :: "string option"
  m_phone :: "string option"
  m_role :: Role

text \<open>Everything the four operations send out, in the order sent.\<close>

datatype request =
    SignInWithPassword string string
  | SignUpCall string string "Metadata option"
  | InsertRow string UserData
  | SetTimeout nat
  | ResetPasswordForEmail string string
  | SignOutCall

section \<open>The session manager\<close>

text \<open>
  The repository holds two texts of \<open>AuthProvider\<close>. The one in
  \<open>contexts/AuthContext.tsx\<close> calls the state setters directly (\<open>Plain\<close>). The other one
  (with \<open>resetPasswordForEmail\<close> and the \<open>user_profiles\<close> table) keeps a
  \<open>mounted\<close> ref and wraps every setter call in \<open>if (mounted.current)\<close>
  (\<open>Guarded\<close>). Both are modelled by the same functions, with the variant as a parameter
  wherever the two texts differ.
\<close>

datatype variant = Plain | Guarded

text \<open>
  The provider instance: the state cells, whether the provider component is mounted,
  whether the \<open>onAuthStateChange\<close> subscription is still registered, the user ids of the
  \<open>loadUserProfile\<close> calls that are waiting for their query, the lines written with
  \<open>console.error\<close>, and the requests sent out by the operations. The guarded text
  keeps the fact that the component is mounted in its \<open>mounted\<close> ref, which the effect
  sets when it runs and its cleanup clears at unmount; the ref and the component agree at
  every moment, so one field stands for both.
\<close>

record provider =
  auth :: AuthState
  mounted :: bool
  subscribed :: bool
  pending :: "string list"
  console :: "(string \<times> string) list"
  requests :: "request list"

definition init :: provider where
  "init = \<lparr>auth = \<lparr>session = None, user = None, loading = True\<rparr>,
           mounted = True, subscribed = True, pending = [], console = [], requests = []\<rparr>"

text \<open>
  The setters of the three \<open>useState\<close> cells. A state update requested for a component
  that is no longer mounted is dropped by the framework: the call returns and the cell
  keeps its value.
\<close>

definition setSession :: "Session option \<Rightarrow> provider \<Rightarrow> provider" where
  "setSession s p = (if mounted p then p\<lparr>auth := (auth p)\<lparr>session := s\<rparr>\<rparr> else p)"

definition setUser :: "User option \<Rightarrow> provider \<Rightarrow> provider" where
  "setUser u p = (if mounted p then p\<lparr>auth := (auth p)\<lparr>user := u\<rparr>\<rparr> else p)"

definition setLoading :: "bool \<Rightarrow> provider \<Rightarrow> provider" where
  "setLoading b p = (if mounted p then p\<lparr>auth := (auth p)\<lparr>loading := b\<rparr>\<rparr> else p)"

text \<open>
  \<open>if (mounted.current) { ... }\<close> in the guarded text; the plain text has no such test and
  always runs the body, that is, always calls the setter.
\<close>

fun mounted_current :: "variant \<Rightarrow> provider \<Rightarrow> bool" where
  "mounted_current Plain p = True"
| "mounted_current Guarded p = mounted p"

definition when_mounted :: "variant \<Rightarrow> (provider \<Rightarrow> provider) \<Rightarrow> provider \<Rightarrow> provider" where
  "when_mounted v f p = (if mounted_current v p then f p else p)"

text \<open>
  \<open>loadUserProfile\<close> suspends at its \<open>await\<close>: the call records the user id it asked
  for, and the rest of the body runs when the reply arrives.
\<close>

definition loadUserProfile_call :: "string \<Rightarrow> provider \<Rightarrow> provider" where
  "loadUserProfile_call userId p = p\<lparr>pending := pending p @ [userId]\<rparr>"

definition console_error :: "string \<Rightarrow> string \<Rightarrow> provider \<Rightarrow> provider" where
  "console_error label err p = p\<lparr>console := console p @ [(label, err)]\<rparr>"

definition loadUserProfile_resume :: "variant \<Rightarrow> string \<Rightarrow> profile_reply \<Rightarrow> provider \<Rightarrow> provider" where
  "loadUserProfile_resume v userId reply p =
     when_mounted v (setLoading False)
       (case profile_query userId reply of
          Inr data \<Rightarrow> when_mounted v (setUser (Some data)) p
        | Inl err \<Rightarrow> console_error ''Error loading user profile:'' err p)"

text \<open>The callback of \<open>supabase.auth.getSession().then(...)\<close>.\<close>

definition on_getSession :: "variant \<Rightarrow> Session option \<Rightarrow> provider \<Rightarrow> provider" where
  "on_getSession v s p =
     (let p1 = when_mounted v (setSession s) p in
      case s of
        Some sess \<Rightarrow> loadUserProfile_call (session_user_id sess) p1
      | None \<Rightarrow> when_mounted v (setLoading False) p1)"

text \<open>
  The callback given to \<open>onAuthStateChange\<close>. The provider calls it only while the
  subscription is registered.
\<close>

definition on_authStateChange :: "variant \<Rightarrow> Session option \<Rightarrow> provider \<Rightarrow> provider" where
  "on_authStateChange v s p =
     (if \<not> subscribed p then p else
      let p1 = when_mounted v (setSession s) p in
      case s of
        Some sess \<Rightarrow> loadUserProfile_call (session_user_id sess) p1
      | None \<Rightarrow> when_mounted v (\<lambda>q. setLoading False (setUser None q)) p1)"

text \<open>
  Unmounting the provider runs the function returned by the effect. Both texts release the
  subscription there; the guarded text also clears its ref. From then on the component is
  not mounted.
\<close>

definition cleanup :: "provider \<Rightarrow> provider" where
  "cleanup p = p\<lparr>mounted := False, subscribed := False\<rparr>"

section \<open>The four operations\<close>

text \<open>
  Each operation takes what the provider answers and the provider instance it runs in, and
  returns its own result together with the instance afterwards. A result
  \<open>{ error?: string }\<close> is a \<open>string option\<close>: \<open>None\<close> is \<open>{}\<close>.
\<close>

definition send :: "request \<Rightarrow> provider \<Rightarrow> provider" where
  "send r p = p\<lparr>requests := requests p @ [r]\<rparr>"

definition unexpected :: string where
  "unexpected = ''An unexpected error occurred''"

definition signIn :: "string \<Rightarrow> string \<Rightarrow> string option settled \<Rightarrow> provider \<Rightarrow> string option \<times> provider" where
  "signIn email password answer p =
     (let p1 = send (SignInWithPassword email password) p in
      case answer of
        Rejected \<Rightarrow> (Some unexpected, p1)
      | Resolved (Some message) \<Rightarrow> (Some message, p1)
      | Resolved None \<Rightarrow> (None, p1))"

text \<open>
  The provider's answer to \<open>auth.signUp\<close>: the error message, if any, and the id of
  \<open>data.user\<close>, if any.
\<close>

type_synonym signup_answer = "string option \<times> string option"

text \<open>
  \<open>{ id: data.user.id, email, ...userData }\<close>: the spread comes last, so a key that
  \<open>userData\<close> has, even with the value \<open>undefined\<close>, wins over the two written before
  it.
\<close>

definition profile_row :: "string \<Rightarrow> string \<Rightarrow> UserData \<Rightarrow> UserData" where
  "profile_row uid email userData =
     userData\<lparr>d_id := (case d_id userData of Absent \<Rightarrow> Value uid | given \<Rightarrow> given),
               d_email := (case d_email userData of Absent \<Rightarrow> Value email | given \<Rightarrow> given)\<rparr>"

text \<open>\<open>role: userData.role || 'parent'\<close> and the three fields copied beside it.\<close>

definition signup_metadata :: "UserData \<Rightarrow> Metadata" where
  "signup_metadata userData =
     \<lparr>m_first_name = read (d_first_name userData),
      m_last_name = read (d_last_name userData),
      m_phone = read (d_phone userData),
      m_role = (case read (d_role userData) of Some r \<Rightarrow> r | None \<Rightarrow> parent)\<rparr>"

text \<open>
  \<open>signUp\<close>. The plain text signs up without options and then inserts the profile row into
  \<open>users\<close> itself; the guarded text sends the metadata and waits a second for the
  database trigger. \<open>insert_answer\<close> is read only where the insert is made.
\<close>

fun signUp :: "variant \<Rightarrow> string \<Rightarrow> string \<Rightarrow> UserData \<Rightarrow> signup_answer settled \<Rightarrow>
    string option settled \<Rightarrow> provider \<Rightarrow> string option \<times> provider" where
  "signUp Plain email password userData answer insert_answer p =
     (let p1 = send (SignUpCall email password None) p in
      case answer of
        Rejected \<Rightarrow> (Some unexpected, p1)
      | Resolved (Some message, data_user) \<Rightarrow> (Some message, p1)
      | Resolved (None, None) \<Rightarrow> (None, p1)
      | Resolved (None, Some uid) \<Rightarrow>
          (let p2 = send (InsertRow ''users'' (profile_row uid email userData)) p1 in
           case insert_answer of
             Rejected \<Rightarrow> (Some unexpected, p2)
           | Resolved (Some message) \<Rightarrow> (Some message, p2)
           | Resolved None \<Rightarrow> (None, p2)))"
| "signUp Guarded email password userData answer insert_answer p =
     (let p1 = send (SignUpCall email password (Some (signup_metadata userData))) p in
      case answer of
        Rejected \<Rightarrow> (Some unexpected, p1)
      | Resolved (Some message, data_user) \<Rightarrow> (Some message, p1)
      | Resolved (None, None) \<Rightarrow> (None, p1)
      | Resolved (None, Some uid) \<Rightarrow> (None, send (SetTimeout 1000) p1))"

text \<open>
  \<open>signOut\<close> awaits the provider without a \<open>try\<close>: when the call rejects, so does
  \<open>signOut\<close>.
\<close>

definition signOut :: "string option settled \<Rightarrow> provider \<Rightarrow> unit settled \<times> provider" where
  "signOut answer p =
     (let p1 = send SignOutCall p in
      case answer of Rejected \<Rightarrow> (Rejected, p1) | Resolved r \<Rightarrow> (Resolved (), p1))"

text \<open>Only the guarded text has \<open>resetPasswordForEmail\<close>.\<close>

definition resetPasswordForEmail :: "string \<Rightarrow> string option settled \<Rightarrow> provider \<Rightarrow> string option \<times> provider" where
  "resetPasswordForEmail email answer p =
     (let p1 = send (ResetPasswordForEmail email ''https://localhost:8081/(auth)/reset-password'') p in
      case answer of
        Rejected \<Rightarrow> (Some unexpected, p1)
      | Resolved (Some message) \<Rightarrow> (Some message, p1)
      | Resolved None \<Rightarrow> (None, p1))"

section \<open>Runs of the session manager\<close>

text \<open>
  Everything that can happen to a provider instance after its effect has run: the
  \<open>getSession\<close> promise resolves, the provider delivers a change notification, the query
  of the \<open>i\<close>-th waiting \<open>loadUserProfile\<close> call comes back, the effect's cleanup
  runs, or a screen calls one of the operations. A run is any list of these, in any order.
\<close>

datatype call =
    SignIn string string "string option settled"
  | SignUp string string UserData "signup_answer settled" "string option settled"
  | ResetPassword string "string option settled"
  | SignOut "string option settled"

datatype event =
    SessionResolved "Session option"
  | AuthChange "Session option"
  | ProfileFetched nat profile_reply
  | Unmount
  | Call call

text \<open>
  The context value of the plain text has no \<open>resetPasswordForEmail\<close>, so there is
  nothing to run for it there.
\<close>

fun perform :: "variant \<Rightarrow> call \<Rightarrow> provider \<Rightarrow> provider" where
  "perform v (SignIn email password a) p = snd (signIn email password a p)"
| "perform v (SignUp email password userData a b) p = snd (signUp v email password userData a b p)"
| "perform Guarded (ResetPassword email a) p = snd (resetPasswordForEmail email a p)"
| "perform Plain (ResetPassword email a) p = p"
| "perform v (SignOut a) p = snd (signOut a p)"

definition forget :: "nat \<Rightarrow> 'a list \<Rightarrow> 'a list" where
  "forget i xs = take i xs @ drop (Suc i) xs"

fun step :: "variant \<Rightarrow> event \<Rightarrow> provider \<Rightarrow> provider" where
  "step v (SessionResolved s) p = on_getSession v s p"
| "step v (AuthChange s) p = on_authStateChange v s p"
| "step v (ProfileFetched i reply) p =
     (if i < length (pending p)
      then loadUserProfile_resume v (pending p ! i) reply (p\<lparr>pending := forget i (pending p)\<rparr>)
      else p)"
| "step v Unmount p = cleanup p"
| "step v (Call c) p = perform v c p"

fun run :: "variant \<Rightarrow> event list \<Rightarrow> provider \<Rightarrow> provider" where
  "run v [] p = p"
| "run v (e # es) p = run v es (step v e p)"

section \<open>The accessor\<close>

text \<open>
  The value an \<open>AuthProvider\<close> hands to \<open>AuthContext.Provider\<close>: the three cells and the
  operations. The plain text publishes three operations, the guarded text adds
  \<open>resetPasswordForEmail\<close>.
\<close>

record AuthContextType =
  ctx_session :: "Session option"
  ctx_user :: "User option"
  ctx_loading :: bool
  ctx_signIn :: "string \<Rightarrow> string \<Rightarrow> string option settled \<Rightarrow> provider \<Rightarrow> string option \<times> provider"
  ctx_signUp :: "string \<Rightarrow> string \<Rightarrow> UserData \<Rightarrow> signup_answer settled \<Rightarrow> string option settled \<Rightarrow>
                 provider \<Rightarrow> string option \<times> provider"
  ctx_resetPasswordForEmail ::
    "(string \<Rightarrow> string option settled \<Rightarrow> provider \<Rightarrow> string option \<times> provider) option"
  ctx_signOut :: "string option settled \<Rightarrow> provider \<Rightarrow> unit settled \<times> provider"

definition provider_value :: "variant \<Rightarrow> provider \<Rightarrow> AuthContextType" where
  "provider_value v p =
     \<lparr>ctx_session = session (auth p),
      ctx_user = user (auth p),
      ctx_loading = loading (auth p),
      ctx_signIn = signIn,
      ctx_signUp = signUp v,
      ctx_resetPasswordForEmail = (case v of Plain \<Rightarrow> None | Guarded \<Rightarrow> Some resetPasswordForEmail),
      ctx_signOut = signOut\<rparr>"

text \<open>
  \<open>useContext(AuthContext)\<close> gives the value of the enclosing \<open>AuthProvider\<close> (the text
  it runs and its instance), or the default \<open>undefined\<close> of \<open>createContext\<close> when there
  is none. \<open>useAuth\<close> throws on the latter; a context value is an object and never falsy.
\<close>

datatype error = Error string

definition useContext :: "(variant \<times> provider) option \<Rightarrow> AuthContextType option" where
  "useContext scope = map_option (\<lambda>(v, p). provider_value v p) scope"

definition useAuth :: "(variant \<times> provider) option \<Rightarrow> error + AuthContextType" where
  "useAuth scope =
     (case useContext scope of
        None \<Rightarrow> Inl (Error ''useAuth must be used within an AuthProvider'')
      | Some context \<Rightarrow> Inr context)"

section \<open>The row store and the reads of the screens\<close>








type_synonym 'r rows = "string + 'r list"











subsection \<open>The patients list\<close>





subsection \<open>The dashboard counts\<close>









subsection \<open>The reports screen\<close>




section \<open>The database trigger\<close>

text \<open>
  The migration installs \<open>handle_new_user\<close> on \<open>auth.users\<close>: for each new account it
  inserts a \<open>user_profiles\<close> row built from the account and the metadata it was signed up
  with, each \<open>COALESCE\<close> supplying the default of a missing key. The two timestamp columns
  are not in the column list and get the table's defaults.
\<close>

record NewAuthUser =
  new_id :: string
  new_email :: string
  raw_user_meta_data :: "Metadata option"

record ProfileRow =
  r_id :: string
  r_email :: string
  r_first_name :: string
  r_last_name :: string
  r_phone :: "string option"
  r_role :: Role

definition handle_new_user :: "NewAuthUser \<Rightarrow> ProfileRow" where
  "handle_new_user NEW =
     \<lparr>r_id = new_id NEW,
      r_email = new_email NEW,
      r_first_name = (case Option.bind (raw_user_meta_data NEW) m_first_name of
                        Some x \<Rightarrow> x | None \<Rightarrow> []),
      r_last_name = (case Option.bind (raw_user_meta_data NEW) m_last_name of
                       Some x \<Rightarrow> x | None \<Rightarrow> []),
      r_phone = Option.bind (raw_user_meta_data NEW) m_phone,
      r_role = (case raw_user_meta_data NEW of Some m \<Rightarrow> m_role m | None \<Rightarrow> parent)\<rparr>"

section \<open>Notions used in the statements\<close>

text \<open>A request that writes a row into a table.\<close>

fun is_insert :: "request \<Rightarrow> bool" where
  "is_insert (InsertRow table row) = True"
| "is_insert r = False"


text \<open>
  A run is orderly when a \<open>null\<close> session never arrives while a profile query is still
  under way, and the initial resolution does not bring \<open>null\<close> after a profile has been
  published.
\<close>

fun admissible :: "event \<Rightarrow> provider \<Rightarrow> bool" where
  "admissible (SessionResolved None) p = (pending p = [] \<and> user (auth p) = None)"
| "admissible (AuthChange None) p = (pending p = [])"
| "admissible e p = True"

fun orderly :: "variant \<Rightarrow> event list \<Rightarrow> provider \<Rightarrow> bool" where
  "orderly v [] p = True"
| "orderly v (e # es) p = (admissible e p \<and> orderly v es (step v e p))"

text \<open>The two invariants carried along a run.\<close>

definition consistent :: "variant \<Rightarrow> provider \<Rightarrow> bool" where
  "consistent v p \<longleftrightarrow>
     (user (auth p) \<noteq> None \<longrightarrow> session (auth p) \<noteq> None) \<and>
     (mounted p \<longrightarrow> pending p \<noteq> [] \<longrightarrow> session (auth p) \<noteq> None)"


section \<open>Sample data\<close>

definition session_u1 :: Session where
  "session_u1 = \<lparr>access_token = ''token-1'', session_user_id = ''u1''\<rparr>"

definition session_u2 :: Session where
  "session_u2 = \<lparr>access_token = ''token-2'', session_user_id = ''u2''\<rparr>"

definition profile_u1 :: User where
  "profile_u1 = \<lparr>u_id = ''u1'', u_email = ''kim@example.org'', u_role = parent,
     u_first_name = ''Kim'', u_last_name = ''Park'', u_phone = None,
     u_created_at = ''2025-08-01'', u_updated_at = ''2025-08-01''\<rparr>"

definition profile_u2 :: User where
  "profile_u2 = \<lparr>u_id = ''u2'', u_email = ''lee@example.org'', u_role = doctor,
     u_first_name = ''Lee'', u_last_name = ''Moreno'', u_phone = Some ''555-0102'',
     u_created_at = ''2025-08-01'', u_updated_at = ''2025-08-01''\<rparr>"

definition user_profiles :: "User list" where
  "user_profiles = [profile_u1, profile_u2]"

definition form :: UserData where
  "form = \<lparr>d_id = Absent, d_email = Absent, d_role = Absent, d_first_name = Value ''Kim'',
     d_last_name = Value ''Park'', d_phone = Absent, d_created_at = Absent,
     d_updated_at = Absent\<rparr>"




section \<open>Auxiliary facts\<close>

lemmas setters = setSession_def setUser_def setLoading_def when_mounted_def
  loadUserProfile_call_def console_error_def

lemmas callbacks = on_getSession_def on_authStateChange_def loadUserProfile_resume_def cleanup_def

lemmas operations = signIn_def signOut_def resetPasswordForEmail_def send_def

lemmas samples = session_u1_def session_u2_def profile_u1_def profile_u2_def user_profiles_def
  init_def forget_def

lemma run_append: "run v (xs @ ys) p = run v ys (run v xs p)"
  by (induction xs arbitrary: p) simp_all

text \<open>An operation changes nothing but the list of requests sent.\<close>

lemma signUp_frame:
  "snd (signUp v email password userData a b p)
     = p\<lparr>requests := requests (snd (signUp v email password userData a b p))\<rparr>"
  by (cases v) (simp_all add: send_def Let_def split: settled.splits option.splits prod.splits)

lemma perform_frame: "perform v c p = p\<lparr>requests := requests (perform v c p)\<rparr>"
proof (cases c)
  case (SignUp e pw ud a b)
  then show ?thesis using signUp_frame [of v e pw ud a b p] by simp
next
  case (ResetPassword e a)
  then show ?thesis
    by (cases v) (simp_all add: operations Let_def split: settled.splits option.splits)
qed (simp_all add: operations Let_def split: settled.splits option.splits)

lemma perform_fields:
  "auth (perform v c p) = auth p" "mounted (perform v c p) = mounted p"
  "subscribed (perform v c p) = subscribed p" "pending (perform v c p) = pending p"
  "console (perform v c p) = console p"
  by (subst perform_frame, simp)+

lemma run_calls_frame:
  "run v (map Call cs) p = p\<lparr>requests := requests (run v (map Call cs) p)\<rparr>"
proof (induction cs arbitrary: p)
  case Nil
  then show ?case by simp
next
  case (Cons c cs)
  have "run v (map Call (c # cs)) p = run v (map Call cs) (perform v c p)" by simp
  also have "\<dots> = (perform v c p)\<lparr>requests := requests (run v (map Call cs) (perform v c p))\<rparr>"
    by (rule Cons.IH)
  also have "\<dots> = p\<lparr>requests := requests (run v (map Call cs) (perform v c p))\<rparr>"
    by (subst perform_frame) simp
  finally show ?case by simp
qed

text \<open>Once the provider is unmounted, no event changes the state cells.\<close>

lemma unmounted_step:
  "\<not> mounted p \<Longrightarrow> auth (step v e p) = auth p \<and> \<not> mounted (step v e p)"
  by (cases e; cases v)
     (auto simp: callbacks setters perform_fields Let_def split: option.splits sum.splits)

lemma unmounted_run: "\<not> mounted p \<Longrightarrow> auth (run v es p) = auth p"
proof (induction es arbitrary: p)
  case Nil
  then show ?case by simp
next
  case (Cons e es)
  then show ?case using unmounted_step [of p v e] by simp
qed

text \<open>Each admissible event keeps \<open>consistent\<close>.\<close>

lemma consistent_step:
  "consistent v p \<Longrightarrow> admissible e p \<Longrightarrow> consistent v (step v e p)"
proof (cases e)
  case (SessionResolved s)
  assume "consistent v p" "admissible e p"
  with SessionResolved show ?thesis
    by (cases v; cases s) (auto simp: consistent_def callbacks setters Let_def)
next
  case (AuthChange s)
  assume "consistent v p" "admissible e p"
  with AuthChange show ?thesis
    by (cases v; cases s) (auto simp: consistent_def callbacks setters Let_def)
next
  case (ProfileFetched i reply)
  assume "consistent v p" "admissible e p"
  with ProfileFetched show ?thesis
    by (cases v) (auto simp: consistent_def callbacks setters Let_def split: sum.splits)
next
  case Unmount
  assume "consistent v p"
  with Unmount show ?thesis
    by (cases v) (auto simp: consistent_def callbacks)
next
  case (Call c)
  assume "consistent v p"
  with Call show ?thesis
    by (cases v) (auto simp: consistent_def perform_fields)
qed

lemma consistent_run:
  "consistent v p \<Longrightarrow> orderly v es p \<Longrightarrow> consistent v (run v es p)"
  by (induction es arbitrary: p) (auto intro: consistent_step)










section \<open>Role scoping of the reads\<close>




section \<open>Overlapping profile fetches\<close>

text \<open>
  C2 (as amended). No fetch result is ever discarded: a profile query publishes its row at
  the moment it resolves. When notifications N1 and N2 arrive in this order and the query
  started by N2 resolves before the one started by N1, \<open>user\<close> first holds the row of N2
  and then the row of N1, while \<open>session\<close> stays the session of N2: the last completion
  wins, not the last notification.
\<close>

theorem last_completion_wins:
  assumes "mounted p" and "subscribed p"
    and "profile_query (session_user_id n1) r1 = Inr d1"
    and "profile_query (session_user_id n2) r2 = Inr d2"
    and "k = length (pending p)"
  shows "user (auth (run v [AuthChange (Some n1), AuthChange (Some n2),
                            ProfileFetched (Suc k) r2] p)) = Some d2
     \<and> user (auth (run v [AuthChange (Some n1), AuthChange (Some n2),
                            ProfileFetched (Suc k) r2, ProfileFetched k r1] p)) = Some d1
     \<and> session (auth (run v [AuthChange (Some n1), AuthChange (Some n2),
                            ProfileFetched (Suc k) r2, ProfileFetched k r1] p)) = Some n2"
  using assms by (cases v) (simp_all add: callbacks setters forget_def nth_append)

theorem last_completion_wins_witness:
  "mounted init \<and> subscribed init
   \<and> profile_query (session_user_id session_u1) (Rows user_profiles) = Inr profile_u1
   \<and> profile_query (session_user_id session_u2) (Rows user_profiles) = Inr profile_u2
   \<and> user (auth (run Plain [AuthChange (Some session_u1), AuthChange (Some session_u2),
                 ProfileFetched 1 (Rows user_profiles), ProfileFetched 0 (Rows user_profiles)] init))
       = Some profile_u1"
proof -
  have m: "mounted init" and s: "subscribed init" and k: "0 = length (pending init)"
    by (simp_all add: init_def)
  have q1: "profile_query (session_user_id session_u1) (Rows user_profiles) = Inr profile_u1"
    and q2: "profile_query (session_user_id session_u2) (Rows user_profiles) = Inr profile_u2"
    by (simp_all add: samples)
  from last_completion_wins [OF m s q1 q2 k, of Plain] m s q1 q2 show ?thesis by simp
qed

text \<open>
  Sign-in as \<open>u1\<close>, then as \<open>u2\<close>; the profile of \<open>u2\<close> arrives first, the one of
  \<open>u1\<close> last. The guarded provider ends with the session of \<open>u2\<close> and the profile of
  \<open>u1\<close>.
\<close>

theorem stale_profile_overwrites_newer:
  "auth (run Guarded [AuthChange (Some session_u1), AuthChange (Some session_u2),
          ProfileFetched 1 (Rows user_profiles), ProfileFetched 0 (Rows user_profiles)] init)
     = \<lparr>session = Some session_u2, user = Some profile_u1, loading = False\<rparr>
   \<and> profile_query (session_user_id session_u2) (Rows user_profiles) = Inr profile_u2
   \<and> profile_u1 \<noteq> profile_u2"
  by (simp add: samples callbacks setters)

section \<open>User and session\<close>

text \<open>
  C3 (as amended). In every state reached from the initial state by an orderly run (no
  \<open>null\<close> session arrives while a profile query is under way, and the initial resolution
  does not bring \<open>null\<close> after a profile has been published), \<open>user \<noteq> null\<close> implies
  \<open>session \<noteq> null\<close>.
\<close>

theorem user_implies_session_when_orderly:
  assumes "orderly v es init" and "user (auth (run v es init)) \<noteq> None"
  shows "session (auth (run v es init)) \<noteq> None"
proof -
  have "consistent v init" by (cases v) (simp_all add: consistent_def init_def)
  then have "consistent v (run v es init)" using assms(1) by (rule consistent_run)
  then show ?thesis using assms(2) by (simp add: consistent_def)
qed

theorem user_implies_session_witness:
  "orderly Guarded [SessionResolved (Some session_u1), ProfileFetched 0 (Rows user_profiles),
                    AuthChange (Some session_u1)] init
   \<and> user (auth (run Guarded [SessionResolved (Some session_u1),
                   ProfileFetched 0 (Rows user_profiles), AuthChange (Some session_u1)] init))
       = Some profile_u1
   \<and> session (auth (run Guarded [SessionResolved (Some session_u1),
                   ProfileFetched 0 (Rows user_profiles), AuthChange (Some session_u1)] init))
       \<noteq> None"
proof -
  let ?es = "[SessionResolved (Some session_u1), ProfileFetched 0 (Rows user_profiles),
              AuthChange (Some session_u1)]"
  have o: "orderly Guarded ?es init" by simp
  have u: "user (auth (run Guarded ?es init)) = Some profile_u1"
    by (simp add: samples callbacks setters)
  then have "user (auth (run Guarded ?es init)) \<noteq> None" by simp
  from user_implies_session_when_orderly [OF o this] o u show ?thesis by simp
qed

text \<open>
  Sign-in, then sign-out while the profile query is still under way, then the profile
  arrives: the session is \<open>null\<close> and the user is not.
\<close>

theorem profile_after_sign_out:
  "auth (run Guarded [AuthChange (Some session_u1), AuthChange None,
          ProfileFetched 0 (Rows user_profiles)] init)
     = \<lparr>session = None, user = Some profile_u1, loading = False\<rparr>"
  by (simp add: samples callbacks setters)

section \<open>Teardown\<close>

text \<open>
  C4. Once the provider has been unmounted and the cleanup of its effect has run, no later
  event, be it the initial session resolution, the reply to a profile query under way, a
  notification or an operation call, changes \<open>session\<close>, \<open>user\<close> or \<open>loading\<close>.
  This holds for both texts of the provider and for every sequence of later events.
\<close>

theorem teardown_freezes_state:
  "auth (run v es (step v Unmount p)) = auth p"
proof -
  have "\<not> mounted (step v Unmount p)" by (simp add: cleanup_def)
  then have "auth (run v es (step v Unmount p)) = auth (step v Unmount p)"
    by (rule unmounted_run)
  then show ?thesis by (simp add: cleanup_def)
qed

section \<open>A failed profile fetch\<close>

text \<open>
  C5 (as amended). When a profile query fails (transport error, no row or several rows)
  while the provider is mounted, the error is logged, \<open>loading\<close> is set to false, and
  \<open>session\<close> and \<open>user\<close> are left exactly as they were. So \<open>user\<close> is \<open>null\<close>
  afterwards only if it was \<open>null\<close> before, and a profile published earlier stays
  published.
\<close>

theorem failed_fetch_leaves_user:
  assumes "i < length (pending p)" and "profile_query (pending p ! i) reply = Inl err"
    and "mounted p"
  shows "auth (step v (ProfileFetched i reply) p) = (auth p)\<lparr>loading := False\<rparr>
     \<and> console (step v (ProfileFetched i reply) p)
         = console p @ [(''Error loading user profile:'', err)]"
  using assms by (cases v) (simp_all add: callbacks setters)

text \<open>Scenario 5: the first fetch after start fails.\<close>

theorem failed_fetch_witness:
  "0 < length (pending (step Guarded (SessionResolved (Some session_u1)) init))
   \<and> profile_query (pending (step Guarded (SessionResolved (Some session_u1)) init) ! 0)
        (NetworkError ''Network request failed'') = Inl ''Network request failed''
   \<and> mounted (step Guarded (SessionResolved (Some session_u1)) init)
   \<and> auth (run Guarded [SessionResolved (Some session_u1),
                         ProfileFetched 0 (NetworkError ''Network request failed'')] init)
       = \<lparr>session = Some session_u1, user = None, loading = False\<rparr>"
proof -
  let ?p = "step Guarded (SessionResolved (Some session_u1)) init"
  have a: "0 < length (pending ?p)"
    and b: "profile_query (pending ?p ! 0) (NetworkError ''Network request failed'')
              = Inl ''Network request failed''"
    and c: "mounted ?p"
    by (simp_all add: samples callbacks setters)
  have "auth ?p = \<lparr>session = Some session_u1, user = None, loading = True\<rparr>"
    by (simp add: samples callbacks setters)
  with failed_fetch_leaves_user [OF a b c] a b c show ?thesis by simp
qed

text \<open>
  A token refresh after the profile of \<open>u1\<close> was published starts a second query, which
  fails: \<open>user\<close> is still the profile.
\<close>

theorem failed_refetch_keeps_profile:
  "auth (run Guarded [AuthChange (Some session_u1), ProfileFetched 0 (Rows user_profiles),
          AuthChange (Some session_u1),
          ProfileFetched 0 (NetworkError ''Network request failed'')] init)
     = \<lparr>session = Some session_u1, user = Some profile_u1, loading = False\<rparr>"
  by (simp add: samples callbacks setters)

section \<open>The operations and the published state\<close>

text \<open>
  C6. None of \<open>signIn\<close>, \<open>signUp\<close>, \<open>resetPasswordForEmail\<close> and \<open>signOut\<close>
  changes \<open>session\<close>, \<open>user\<close> or \<open>loading\<close>, whatever the provider answers; and when
  the provider answers \<open>signIn\<close> with an error, \<open>signIn\<close> returns that message and the
  provider instance differs only by the request sent.
\<close>

theorem operations_leave_AuthState:
  "auth (snd (signIn email password a p)) = auth p
   \<and> auth (snd (signUp v email password userData b c p)) = auth p
   \<and> auth (snd (resetPasswordForEmail email a p)) = auth p
   \<and> auth (snd (signOut a p)) = auth p
   \<and> signIn email password (Resolved (Some message)) p
       = (Some message, p\<lparr>requests := requests p @ [SignInWithPassword email password]\<rparr>)"
proof -
  have "auth (snd (signUp v email password userData b c p)) = auth p"
    by (subst signUp_frame) simp
  then show ?thesis
    by (simp add: operations Let_def split: settled.splits option.splits)
qed

section \<open>The loading flag\<close>




section \<open>Sign-up and the profile row\<close>

text \<open>
  C8 (as amended). In the provider text that sends the sign-up metadata (the one that also
  has \<open>resetPasswordForEmail\<close>), \<open>signUp\<close> inserts no row: the only requests it adds are
  the provider call, carrying \<open>role\<close> as given or \<open>parent\<close> when the caller left it out,
  and possibly the one-second wait; the trigger \<open>handle_new_user\<close> creates the profile
  row with that role. In \<open>contexts/AuthContext.tsx\<close>, a successful \<open>signUp\<close> sends no
  metadata and then inserts the row \<open>{id, email, ...userData}\<close> into \<open>users\<close> itself.
\<close>

theorem guarded_signUp_leaves_insert_to_trigger:
  "filter is_insert (requests (snd (signUp Guarded email password userData a b p)))
     = filter is_insert (requests p)
   \<and> hd (drop (length (requests p)) (requests (snd (signUp Guarded email password userData a b p))))
     = SignUpCall email password (Some (signup_metadata userData))
   \<and> m_role (signup_metadata userData)
     = (case read (d_role userData) of Some r \<Rightarrow> r | None \<Rightarrow> parent)
   \<and> r_role (handle_new_user \<lparr>new_id = uid, new_email = email,
                               raw_user_meta_data = Some (signup_metadata userData)\<rparr>)
     = (case read (d_role userData) of Some r \<Rightarrow> r | None \<Rightarrow> parent)
   \<and> signUp Plain email password userData (Resolved (None, Some uid)) (Resolved None) p
     = (None, p\<lparr>requests := requests p @ [SignUpCall email password None,
                   InsertRow ''users'' (profile_row uid email userData)]\<rparr>)"
  by (simp add: send_def Let_def signup_metadata_def handle_new_user_def
           split: settled.splits option.splits prod.splits)

text \<open>
  A registration without a role through the plain provider: the client writes the profile
  row, and the row has no role.
\<close>

theorem plain_signUp_inserts_profile:
  "signUp Plain ''kim@example.org'' ''secret'' form (Resolved (None, Some ''u1'')) (Resolved None) init
     = (None, init\<lparr>requests := [SignUpCall ''kim@example.org'' ''secret'' None,
                     InsertRow ''users'' (form\<lparr>d_id := Value ''u1'', d_email := Value ''kim@example.org''\<rparr>)]\<rparr>)
   \<and> d_role (form\<lparr>d_id := Value ''u1'', d_email := Value ''kim@example.org''\<rparr>) = Absent"
  by (simp add: send_def Let_def profile_row_def form_def init_def)

section \<open>Cold start without a session\<close>

text \<open>
  C9. When the initial \<open>getSession\<close> resolves to \<open>null\<close> and no notification arrives,
  the published state is \<open>{session: null, user: null, loading: false}\<close>, whatever
  operations the screens call before or after.
\<close>

theorem no_prior_session:
  "auth (run v (map Call before @ [SessionResolved None] @ map Call after) init)
     = \<lparr>session = None, user = None, loading = False\<rparr>"
proof -
  let ?p = "run v (map Call before) init"
  have a: "auth ?p = auth init" "mounted ?p = mounted init"
    by (subst run_calls_frame, simp)+
  have "auth (run v (map Call after) (step v (SessionResolved None) ?p))
          = auth (step v (SessionResolved None) ?p)"
    by (subst run_calls_frame) simp
  also have "\<dots> = \<lparr>session = None, user = None, loading = False\<rparr>"
    using a by (cases v) (simp_all add: callbacks setters init_def)
  finally show ?thesis by (simp add: run_append)
qed

section \<open>The accessor outside and inside a provider\<close>

text \<open>
  C10. Outside any \<open>AuthProvider\<close>, \<open>useAuth\<close> throws the error
  \<open>useAuth must be used within an AuthProvider\<close>. Inside one it returns the value that
  provider publishes: its current \<open>session\<close>, \<open>user\<close> and \<open>loading\<close>, and its
  operations \<open>signIn\<close>, \<open>signUp\<close> and \<open>signOut\<close>, with \<open>resetPasswordForEmail\<close>
  in the text that has it.
\<close>

theorem useAuth_outside_and_inside:
  "useAuth None = Inl (Error ''useAuth must be used within an AuthProvider'')
   \<and> (case useAuth (Some (v, p)) of
        Inl e \<Rightarrow> False
      | Inr context \<Rightarrow>
          ctx_session context = session (auth p)
          \<and> ctx_user context = user (auth p)
          \<and> ctx_loading context = loading (auth p)
          \<and> ctx_signIn context = signIn
          \<and> ctx_signUp context = signUp v
          \<and> ctx_signOut context = signOut
          \<and> ctx_resetPasswordForEmail context
              = (case v of Plain \<Rightarrow> None | Guarded \<Rightarrow> Some resetPasswordForEmail))"
  by (simp add: useAuth_def useContext_def provider_value_def)

end
